theory Spec2Isabelle
  imports Complex_Main
begin

section \<open>The transition-tick adapter of svelte-native\<close>

text \<open>
  The source tree holds two copies of \<^verbatim>\<open>src/transitions/index.ts\<close>. They agree line by
  line except in four places of \<^verbatim>\<open>asSvelteTransition\<close>:
  \<^item> the built-in property mapper reads \<^verbatim>\<open>value.x\<close> in one copy and
    \<^verbatim>\<open>value.scale.x\<close> (\<^verbatim>\<open>value.translate.x\<close>) in the other;
  \<^item> the first frame is classified by \<^verbatim>\<open>t < 0.5\<close> in one copy and by
    \<^verbatim>\<open>u > 0.5\<close> in the other;
  \<^item> an outro animation is sliced and timed by \<^verbatim>\<open>t\<close> in one copy and by
    \<^verbatim>\<open>u\<close> in the other;
  \<^item> \<^verbatim>\<open>createAnimation\<close> is called bare in one copy and inside
    \<^verbatim>\<open>try { } catch { return }\<close> in the other.
  The second copy is also instrumented with \<^verbatim>\<open>Trace.write\<close> calls, which change no
  state and are left out. The model is written once, with a parameter that says which copy
  is meant; it is consulted in exactly those four places.

  JavaScript numbers are modelled as real numbers: the adapter only compares, subtracts
  and multiplies them. The model is exact where a double rounds: the default \<^verbatim>\<open>u = 1 - t\<close>
  is the real difference, so no statement below relates a test on \<open>t\<close> to a test on
  \<open>1 - t\<close>.
\<close>

datatype revision =
    Plain   \<comment> \<open>\<^verbatim>\<open>src/transitions/index.ts\<close>\<close>
  | Traced  \<comment> \<open>the copy with the \<^verbatim>\<open>Trace.write\<close> calls\<close>

subsection \<open>Data\<close>

datatype AnimationDirection = Unknown | In | Out

text \<open>A NativeScript \<^verbatim>\<open>Pair\<close> is an object with exactly the members \<^verbatim>\<open>x\<close> and \<^verbatim>\<open>y\<close>.\<close>

datatype Pair = Pair real real

type_synonym Color = string

text \<open>
  \<^verbatim>\<open>interface NativeAnimationDefinition { opacity?: number; backgroundColor?: Color;
  translate?: Pair; scale?: Pair; rotate?: number }\<close>.
  A definition is the list of the members that are present, in the order in which
  \<^verbatim>\<open>Object.keys\<close> enumerates them.
\<close>

datatype NativeAnimationEntry =
    Opacity real
  | BackgroundColor Color
  | Translate Pair
  | Scale Pair
  | Rotate real

type_synonym NativeAnimationDefinition = "NativeAnimationEntry list"

fun key :: "NativeAnimationEntry \<Rightarrow> string" where
  "key (Opacity r) = ''opacity''"
| "key (BackgroundColor c) = ''backgroundColor''"
| "key (Translate p) = ''translate''"
| "key (Scale p) = ''scale''"
| "key (Rotate r) = ''rotate''"

datatype jsvalue = Number real | ColorValue Color

text \<open>
  The part of a NativeScript \<^verbatim>\<open>View\<close> that the adapter reads and writes. \<^verbatim>\<open>style\<close> is
  optional because the mapper writes to \<^verbatim>\<open>(view.style || view)\<close>.
\<close>

record View =
  opacity :: real
  backgroundColor :: Color
  rotate :: real
  translateX :: real
  translateY :: real
  scaleX :: real
  scaleY :: real
  effectiveHeight :: real
  style :: "(string \<rightharpoonup> jsvalue) option"
  nativeViewProtected :: bool

datatype CubicBezier = CubicBezier (x1: real) (y1: real) (x2: real) (y2: real)

text \<open>The object built by \<^verbatim>\<open>CoreTypes.AnimationCurve.cubicBezier(x1, y1, x2, y2)\<close>.\<close>

datatype CubicBezierAnimationCurve = CubicBezierAnimationCurve real real real real

definition cubicBezier :: "real \<Rightarrow> real \<Rightarrow> real \<Rightarrow> real \<Rightarrow> CubicBezierAnimationCurve" where
  "cubicBezier a b c d = CubicBezierAnimationCurve a b c d"

text \<open>
  The request handed to \<^verbatim>\<open>createAnimation\<close>: the spread target properties
  (\<^verbatim>\<open>{ ...animProps }\<close>) and the three members the adapter sets on \<^verbatim>\<open>nsAnimation\<close>.
\<close>

record AnimationDefinition =
  ns_props :: NativeAnimationDefinition
  ns_delay :: real
  ns_curve :: CubicBezierAnimationCurve
  ns_duration :: real

text \<open>
  A native \<^verbatim>\<open>Animation\<close> object. \<^verbatim>\<open>cancelled\<close> records that \<^verbatim>\<open>cancel()\<close> has been called on
  it; the source cannot read that, it is kept to state what happened to a handle.
\<close>

record Animation =
  request :: AnimationDefinition
  isPlaying :: bool
  cancelled :: bool

text \<open>
  The module \<^verbatim>\<open>./bezier\<close> is imported by the source and is not part of the source tree:
  its exports are parameters.
\<close>

record bezier =
  ease :: CubicBezier
  ease_in :: CubicBezier
  ease_out :: CubicBezier
  ease_in_out :: CubicBezier
  linear_curve :: CubicBezier
  animation_curve :: "real \<Rightarrow> real \<Rightarrow> real \<Rightarrow> real \<Rightarrow> CubicBezier"
  normalizeCurve :: "CubicBezier \<Rightarrow> CubicBezier"
  reverseCurve :: "CubicBezier \<Rightarrow> CubicBezier"
  partialCurveFrom :: "CubicBezier \<Rightarrow> real \<Rightarrow> real \<Rightarrow> CubicBezier"

text \<open>
  What the closure created by \<^verbatim>\<open>asSvelteTransition\<close> holds and never changes. Whether
  \<^verbatim>\<open>createAnimation\<close> or \<^verbatim>\<open>play\<close> throws is decided by the native toolkit; both are
  parameters.
\<close>

record adapter =
  delay :: real
  duration :: real
  svelteCurve :: CubicBezier
  nativeAnimationProps :: "real \<Rightarrow> NativeAnimationDefinition"
  applyNativeAnimationProps :: "(View \<Rightarrow> NativeAnimationDefinition \<Rightarrow> View) option"
  bezier_module :: bezier
  createAnimation_throws :: "AnimationDefinition \<Rightarrow> bool"
  play_throws :: "AnimationDefinition \<Rightarrow> bool"

text \<open>
  The variables of the closure (\<^verbatim>\<open>direction\<close>, \<^verbatim>\<open>animation\<close>, \<^verbatim>\<open>last_t\<close>), the view of the
  node, every native animation created so far (a handle is an index into that list) and
  the number of \<^verbatim>\<open>setTimeout\<close> callbacks that have not run yet.
\<close>

record state =
  direction :: AnimationDirection
  animation :: "nat option"
  last_t :: real
  view :: View
  animations :: "Animation list"
  timeouts :: nat

text \<open>How a call ends: it returns, or an exception leaves it.\<close>

datatype completion = Normal | Thrown

definition andThen :: "completion \<times> state \<Rightarrow> (state \<Rightarrow> completion \<times> state) \<Rightarrow> completion \<times> state" where
  "andThen r f = (case r of (Normal, s) \<Rightarrow> f s | (Thrown, s) \<Rightarrow> (Thrown, s))"

subsection \<open>Creating the adapter\<close>

text \<open>
  The \<^verbatim>\<open>curve\<close> argument is a string, a \<^verbatim>\<open>CubicBezierAnimationCurve\<close> or a falsy value.
  The strings compared with are the values of \<^verbatim>\<open>CoreTypes.AnimationCurve.ease\<close>,
  \<^verbatim>\<open>easeIn\<close>, \<^verbatim>\<open>easeOut\<close>, \<^verbatim>\<open>easeInOut\<close> and \<^verbatim>\<open>linear\<close> in NativeScript.
\<close>

datatype curve_argument =
    CurveName string
  | CurveObject CubicBezierAnimationCurve
  | CurveNull

definition resolveCurve :: "bezier \<Rightarrow> curve_argument \<Rightarrow> CubicBezier" where
  "resolveCurve bz curve =
     (case curve of
        CurveName n \<Rightarrow>
          (if n = ''ease'' then ease bz
           else if n = ''easeIn'' then ease_in bz
           else if n = ''easeOut'' then ease_out bz
           else if n = ''easeInOut'' then ease_in_out bz
           else if n = ''linear'' then linear_curve bz
           else linear_curve bz)
      | CurveObject (CubicBezierAnimationCurve a b c d) \<Rightarrow> animation_curve bz a b c d
      | CurveNull \<Rightarrow> linear_curve bz)"

text \<open>
  \<^verbatim>\<open>asSvelteTransition\<close> builds the closure. Its own defaults (\<^verbatim>\<open>delay = 0\<close>,
  \<^verbatim>\<open>duration = 300\<close>, \<^verbatim>\<open>curve = linear\<close>) serve a caller that leaves an argument out; the
  three transitions below pass every argument. The module and the two toolkit parameters
  come first.
\<close>

definition asSvelteTransition ::
  "bezier \<Rightarrow> (AnimationDefinition \<Rightarrow> bool) \<Rightarrow> (AnimationDefinition \<Rightarrow> bool) \<Rightarrow>
   real \<Rightarrow> real \<Rightarrow> curve_argument \<Rightarrow> (real \<Rightarrow> NativeAnimationDefinition) \<Rightarrow>
   (View \<Rightarrow> NativeAnimationDefinition \<Rightarrow> View) option \<Rightarrow> adapter" where
  "asSvelteTransition bz create_throws plays_throws dl dur curve props apply =
     \<lparr> delay = dl, duration = dur, svelteCurve = resolveCurve bz curve,
       nativeAnimationProps = props, applyNativeAnimationProps = apply,
       bezier_module = bz, createAnimation_throws = create_throws,
       play_throws = plays_throws \<rparr>"

text \<open>\<^verbatim>\<open>let direction = AnimationDirection.Unknown; let animation = null; let last_t = -1\<close>\<close>

definition initial :: "View \<Rightarrow> state" where
  "initial v = \<lparr> direction = Unknown, animation = None, last_t = - 1, view = v,
                 animations = [], timeouts = 0 \<rparr>"

subsection \<open>The built-in property mapper\<close>

text \<open>
  One round of the \<^verbatim>\<open>forEach\<close> over the keys, with \<^verbatim>\<open>value = animDef[k]\<close>. \<^verbatim>\<open>None\<close> is a
  \<^verbatim>\<open>TypeError\<close>. In the traced copy the cases \<^verbatim>\<open>'scale'\<close> and \<^verbatim>\<open>'translate'\<close> read
  \<^verbatim>\<open>value.scale.x\<close> and \<^verbatim>\<open>value.translate.x\<close>: \<^verbatim>\<open>value\<close> is the pair itself, a pair has no
  member \<^verbatim>\<open>scale\<close> or \<^verbatim>\<open>translate\<close>, and reading \<^verbatim>\<open>.x\<close> of \<^verbatim>\<open>undefined\<close> throws before
  anything is assigned. The other copy reads \<^verbatim>\<open>value.x\<close> and \<^verbatim>\<open>value.y\<close>. Every other key
  is assigned on \<^verbatim>\<open>(view.style || view)\<close> under its own name.
\<close>

definition assignStyle :: "View \<Rightarrow> string \<Rightarrow> jsvalue \<Rightarrow> (View \<Rightarrow> View) \<Rightarrow> View" where
  "assignStyle v k val on_view =
     (case style v of
        Some st \<Rightarrow> v\<lparr>style := Some (st(k \<mapsto> val))\<rparr>
      | None \<Rightarrow> on_view v)"

fun assign :: "revision \<Rightarrow> View \<Rightarrow> NativeAnimationEntry \<Rightarrow> View option" where
  "assign Plain v (Scale (Pair a b)) = Some (v\<lparr>scaleX := a, scaleY := b\<rparr>)"
| "assign Traced v (Scale p) = None"
| "assign Plain v (Translate (Pair a b)) = Some (v\<lparr>translateX := a, translateY := b\<rparr>)"
| "assign Traced v (Translate p) = None"
| "assign rv v (Opacity r) =
     Some (assignStyle v ''opacity'' (Number r) (\<lambda>w. w\<lparr>opacity := r\<rparr>))"
| "assign rv v (BackgroundColor c) =
     Some (assignStyle v ''backgroundColor'' (ColorValue c) (\<lambda>w. w\<lparr>backgroundColor := c\<rparr>))"
| "assign rv v (Rotate r) =
     Some (assignStyle v ''rotate'' (Number r) (\<lambda>w. w\<lparr>rotate := r\<rparr>))"

fun forEachKey :: "revision \<Rightarrow> View \<Rightarrow> NativeAnimationDefinition \<Rightarrow> completion \<times> View" where
  "forEachKey rv v [] = (Normal, v)"
| "forEachKey rv v (e # es) =
     (case assign rv v e of
        None \<Rightarrow> (Thrown, v)
      | Some v' \<Rightarrow> forEachKey rv v' es)"

text \<open>
  \<^verbatim>\<open>applyAnimAtTime(time)\<close>: inside \<^verbatim>\<open>view._batchUpdate\<close>, fetch the definition at \<^verbatim>\<open>time\<close> and
  hand it to the override if there is one, to the built-in mapper otherwise. The
  assignments made before an exception stay.
\<close>

definition applyAnimAtTime :: "revision \<Rightarrow> adapter \<Rightarrow> real \<Rightarrow> state \<Rightarrow> completion \<times> state" where
  "applyAnimAtTime rv cfg time s =
     (let animDef = nativeAnimationProps cfg time in
      case applyNativeAnimationProps cfg of
        Some f \<Rightarrow> (Normal, s\<lparr>view := f (view s) animDef\<rparr>)
      | None \<Rightarrow> (case forEachKey rv (view s) animDef of (c, v) \<Rightarrow> (c, s\<lparr>view := v\<rparr>)))"

subsection \<open>The tick function\<close>

text \<open>
  \<^verbatim>\<open>cancelNativeAnimation\<close>: \<^verbatim>\<open>cancel()\<close> is called only on a handle that is playing; the
  stored reference is cleared in every case. (The toolkit also resets the animated
  properties when it cancels; the adapter re-applies them right after, see below.)
\<close>

definition cancelNativeAnimation :: "state \<Rightarrow> state" where
  "cancelNativeAnimation s =
     (case animation s of
        Some h \<Rightarrow>
          (if h < length (animations s) \<and> isPlaying (animations s ! h)
           then s\<lparr>animation := None,
                  animations := (animations s)[h := (animations s ! h)\<lparr>isPlaying := False, cancelled := True\<rparr>]\<rparr>
           else s\<lparr>animation := None\<rparr>)
      | None \<Rightarrow> s\<lparr>animation := None\<rparr>)"

text \<open>The test of the first frame: \<^verbatim>\<open>t < 0.5\<close> in one copy, \<^verbatim>\<open>u > 0.5\<close> in the other.\<close>

fun isIntro :: "revision \<Rightarrow> real \<Rightarrow> real \<Rightarrow> bool" where
  "isIntro Plain t u = (t < 0.5)"
| "isIntro Traced t u = (u > 0.5)"

text \<open>\<^verbatim>\<open>if (direction == AnimationDirection.Unknown) { ... }\<close>\<close>

definition firstFrame :: "revision \<Rightarrow> adapter \<Rightarrow> real \<Rightarrow> real \<Rightarrow> state \<Rightarrow> completion \<times> state" where
  "firstFrame rv cfg t u s =
     (if direction s = Unknown then
        (if isIntro rv t u then
           andThen (applyAnimAtTime rv cfg 0 s) (\<lambda>s'. (Normal, s'\<lparr>direction := In, last_t := 0\<rparr>))
         else (Normal, s\<lparr>direction := Out, last_t := t\<rparr>))
      else (Normal, s))"

text \<open>\<^verbatim>\<open>if (direction == AnimationDirection.In && last_t > t) { ... }\<close>\<close>

definition inToOut :: "revision \<Rightarrow> adapter \<Rightarrow> real \<Rightarrow> state \<Rightarrow> completion \<times> state" where
  "inToOut rv cfg t s =
     (if direction s = In \<and> last_t s > t
      then applyAnimAtTime rv cfg t (cancelNativeAnimation (s\<lparr>direction := Out\<rparr>))
      else (Normal, s))"

text \<open>\<^verbatim>\<open>if (direction == AnimationDirection.Out && last_t < t) { ... }\<close>\<close>

definition outToIn :: "revision \<Rightarrow> adapter \<Rightarrow> real \<Rightarrow> state \<Rightarrow> completion \<times> state" where
  "outToIn rv cfg t s =
     (if direction s = Out \<and> last_t s < t
      then applyAnimAtTime rv cfg t (cancelNativeAnimation (s\<lparr>direction := In\<rparr>))
      else (Normal, s))"

text \<open>
  \<^verbatim>\<open>animateBlock\<close>: \<^verbatim>\<open>try { animation.play() } catch { }\<close>. It reads the variable
  \<^verbatim>\<open>animation\<close> when it runs; \<^verbatim>\<open>null.play()\<close> and a failing \<^verbatim>\<open>play\<close> are caught.
\<close>

definition animateBlock :: "adapter \<Rightarrow> state \<Rightarrow> state" where
  "animateBlock cfg s =
     (case animation s of
        None \<Rightarrow> s
      | Some h \<Rightarrow>
          (if h < length (animations s) \<and> \<not> play_throws cfg (request (animations s ! h))
           then s\<lparr>animations := (animations s)[h := (animations s ! h)\<lparr>isPlaying := True\<rparr>]\<rparr>
           else s))"

text \<open>The progress that slices and times an outro: \<^verbatim>\<open>t\<close> in one copy, \<^verbatim>\<open>u\<close> in the other.\<close>

fun effectiveT :: "revision \<Rightarrow> real \<Rightarrow> real \<Rightarrow> real" where
  "effectiveT Plain t u = t"
| "effectiveT Traced t u = u"

text \<open>The request \<^verbatim>\<open>nsAnimation\<close> built when a native animation is created.\<close>

definition nsAnimation :: "revision \<Rightarrow> adapter \<Rightarrow> real \<Rightarrow> real \<Rightarrow> AnimationDirection \<Rightarrow> AnimationDefinition" where
  "nsAnimation rv cfg t u dir =
     (let target_t = (if dir = In then 1 else 0);
          animProps = nativeAnimationProps cfg target_t;
          bz = bezier_module cfg
      in if dir = Out then
           (let e = effectiveT rv t u;
                forwardCurve = (if e = 1 then svelteCurve cfg
                                else partialCurveFrom bz (svelteCurve cfg) 0 e);
                finalCurve = normalizeCurve bz (reverseCurve bz forwardCurve)
            in \<lparr> ns_props = animProps, ns_delay = 0,
                 ns_curve = cubicBezier (x1 finalCurve) (y1 finalCurve) (x2 finalCurve) (y2 finalCurve),
                 ns_duration = e * duration cfg \<rparr>)
         else
           (let forwardCurve = (if t = 0 then svelteCurve cfg
                                else partialCurveFrom bz (svelteCurve cfg) t 1);
                finalCurve = normalizeCurve bz forwardCurve
            in \<lparr> ns_props = animProps, ns_delay = 0,
                 ns_curve = cubicBezier (x1 finalCurve) (y1 finalCurve) (x2 finalCurve) (y2 finalCurve),
                 ns_duration = (1 - t) * duration cfg \<rparr>))"

text \<open>
  \<^verbatim>\<open>if (!animation) { ... }\<close>: the fast path for a view that is not realized, the creation
  of the native animation (a failure propagates in one copy and is swallowed in the
  other), then \<^verbatim>\<open>play\<close> at once for an outro and through \<^verbatim>\<open>setTimeout(..., 0)\<close> for an intro.
\<close>

definition startAnimation :: "revision \<Rightarrow> adapter \<Rightarrow> real \<Rightarrow> real \<Rightarrow> state \<Rightarrow> completion \<times> state" where
  "startAnimation rv cfg t u s =
     (if animation s = None then
        (let target_t = (if direction s = In then 1 else 0) in
         if \<not> nativeViewProtected (view s) then applyAnimAtTime rv cfg target_t s
         else
           (let req = nsAnimation rv cfg t u (direction s) in
            if createAnimation_throws cfg req then
              (case rv of Plain \<Rightarrow> (Thrown, s) | Traced \<Rightarrow> (Normal, s))
            else
              (let s' = s\<lparr>animations := animations s @ [\<lparr>request = req, isPlaying = False, cancelled = False\<rparr>],
                          animation := Some (length (animations s))\<rparr>
               in if direction s = Out then (Normal, animateBlock cfg s')
                  else (Normal, s'\<lparr>timeouts := Suc (timeouts s')\<rparr>))))
      else (Normal, s))"

text \<open>The three statements that decide the direction, in the order of the source.\<close>

definition checkDirection :: "revision \<Rightarrow> adapter \<Rightarrow> real \<Rightarrow> real \<Rightarrow> state \<Rightarrow> completion \<times> state" where
  "checkDirection rv cfg t u s =
     andThen (firstFrame rv cfg t u s) (\<lambda>s1.
     andThen (inToOut rv cfg t s1) (\<lambda>s2.
     outToIn rv cfg t s2))"

text \<open>
  The body of \<^verbatim>\<open>tick\<close>: the direction checks, \<^verbatim>\<open>last_t = t\<close>, the creation of the animation.
  An exception leaves the body where it is thrown, so the later statements do not run.
\<close>

definition tickBody :: "revision \<Rightarrow> adapter \<Rightarrow> real \<Rightarrow> real \<Rightarrow> state \<Rightarrow> completion \<times> state" where
  "tickBody rv cfg t u s =
     andThen (checkDirection rv cfg t u s) (\<lambda>s3.
     startAnimation rv cfg t u (s3\<lparr>last_t := t\<rparr>))"

text \<open>\<^verbatim>\<open>svelteAnim.tick = (t: number, u: number = 1 - t) => { ... }\<close>\<close>

definition tick :: "revision \<Rightarrow> adapter \<Rightarrow> real \<Rightarrow> real option \<Rightarrow> state \<Rightarrow> completion \<times> state" where
  "tick rv cfg t uo s = tickBody rv cfg t (case uo of None \<Rightarrow> 1 - t | Some u \<Rightarrow> u) s"

subsection \<open>What happens between two ticks\<close>

text \<open>
  Besides a tick, two things change the state: a pending \<^verbatim>\<open>setTimeout\<close> callback runs
  \<^verbatim>\<open>animateBlock\<close>, and the toolkit finishes an animation that is playing.
\<close>

datatype event = Tick real "real option" | Timeout | Finished nat

definition step :: "revision \<Rightarrow> adapter \<Rightarrow> state \<Rightarrow> event \<Rightarrow> state" where
  "step rv cfg s e =
     (case e of
        Tick t uo \<Rightarrow> snd (tick rv cfg t uo s)
      | Timeout \<Rightarrow>
          (if timeouts s = 0 then s else animateBlock cfg (s\<lparr>timeouts := timeouts s - 1\<rparr>))
      | Finished h \<Rightarrow>
          (if h < length (animations s) \<and> isPlaying (animations s ! h)
           then s\<lparr>animations := (animations s)[h := (animations s ! h)\<lparr>isPlaying := False\<rparr>]\<rparr>
           else s))"

definition run :: "revision \<Rightarrow> adapter \<Rightarrow> state \<Rightarrow> event list \<Rightarrow> state" where
  "run rv cfg s es = foldl (step rv cfg) s es"

subsection \<open>The transitions\<close>

text \<open>
  \<^verbatim>\<open>fade\<close>, \<^verbatim>\<open>fly\<close> and \<^verbatim>\<open>slide\<close> read their baselines from \<^verbatim>\<open>node.nativeView\<close> once, when they
  are called, and default the options that are left out.
\<close>

record options =
  opt_delay :: "real option"
  opt_duration :: "real option"
  opt_easing :: "curve_argument option"
  opt_x :: "real option"
  opt_y :: "real option"

definition orDefault :: "'a option \<Rightarrow> 'a \<Rightarrow> 'a" where
  "orDefault a d = (case a of None \<Rightarrow> d | Some v \<Rightarrow> v)"

definition fade ::
  "bezier \<Rightarrow> (AnimationDefinition \<Rightarrow> bool) \<Rightarrow> (AnimationDefinition \<Rightarrow> bool) \<Rightarrow> View \<Rightarrow> options \<Rightarrow> adapter" where
  "fade bz ct pt nativeView opts =
     (let o' = opacity nativeView in
      asSvelteTransition bz ct pt (orDefault (opt_delay opts) 0) (orDefault (opt_duration opts) 400)
        (CurveName ''linear'')
        (\<lambda>t. [Opacity (t * o')]) None)"

definition fly ::
  "bezier \<Rightarrow> (AnimationDefinition \<Rightarrow> bool) \<Rightarrow> (AnimationDefinition \<Rightarrow> bool) \<Rightarrow> View \<Rightarrow> options \<Rightarrow> adapter" where
  "fly bz ct pt nativeView opts =
     (let x = orDefault (opt_x opts) 0;
          y = orDefault (opt_y opts) 0;
          o' = opacity nativeView;
          tx = translateX nativeView;
          ty = translateY nativeView
      in asSvelteTransition bz ct pt (orDefault (opt_delay opts) 0) (orDefault (opt_duration opts) 400)
           (orDefault (opt_easing opts) (CurveName ''easeOut''))
           (\<lambda>t. [Opacity (t * o'), Translate (Pair (tx + (1 - t) * x) (ty + (1 - t) * y))]) None)"

definition slide ::
  "bezier \<Rightarrow> (AnimationDefinition \<Rightarrow> bool) \<Rightarrow> (AnimationDefinition \<Rightarrow> bool) \<Rightarrow> View \<Rightarrow> options \<Rightarrow> adapter" where
  "slide bz ct pt nativeView opts =
     (let height = effectiveHeight nativeView;
          sx = scaleX nativeView;
          sy = scaleY nativeView;
          tx = translateX nativeView;
          ty = translateY nativeView
      in asSvelteTransition bz ct pt (orDefault (opt_delay opts) 0) (orDefault (opt_duration opts) 400)
           (orDefault (opt_easing opts) (CurveName ''easeOut''))
           (\<lambda>t. [Scale (Pair sx (t * sy)), Translate (Pair tx (ty - t * 0.5 * height))]) None)"

subsection \<open>The handle that plays\<close>

text \<open>Every native animation that is playing is the one the variable \<^verbatim>\<open>animation\<close> holds.\<close>

definition onlyStoredPlays :: "state \<Rightarrow> bool" where
  "onlyStoredPlays s =
     (\<forall>i<length (animations s). isPlaying (animations s ! i) \<longrightarrow> animation s = Some i)"

subsection \<open>Concrete adapters\<close>

text \<open>
  An instance of the imported module and of the native toolkit, a view, and the three
  transitions on it, to run the adapter on concrete ticks. The curve functions of the
  instance are stand-ins: every general statement below is about an arbitrary module.
\<close>

definition demo_bezier :: bezier where
  "demo_bezier =
     \<lparr> ease = CubicBezier 0.25 0.1 0.25 1,
       ease_in = CubicBezier 0.42 0 1 1,
       ease_out = CubicBezier 0 0 0.58 1,
       ease_in_out = CubicBezier 0.42 0 0.58 1,
       linear_curve = CubicBezier 0 0 1 1,
       animation_curve = CubicBezier,
       normalizeCurve = (\<lambda>c. c),
       reverseCurve = (\<lambda>c. CubicBezier (1 - x2 c) (1 - y2 c) (1 - x1 c) (1 - y1 c)),
       partialCurveFrom = (\<lambda>c a b. CubicBezier (x1 c) a (x2 c) b) \<rparr>"

definition never_throws :: "AnimationDefinition \<Rightarrow> bool" where
  "never_throws req = False"

definition demo_view :: View where
  "demo_view =
     \<lparr> opacity = 1, backgroundColor = ''white'', rotate = 0, translateX = 0, translateY = 0,
       scaleX = 1, scaleY = 1, effectiveHeight = 200, style = Some Map.empty,
       nativeViewProtected = True \<rparr>"

definition no_options :: options where
  "no_options = \<lparr> opt_delay = None, opt_duration = None, opt_easing = None,
                   opt_x = None, opt_y = None \<rparr>"

definition demo_fade :: adapter where
  "demo_fade = fade demo_bezier never_throws never_throws demo_view no_options"

definition demo_fly :: adapter where
  "demo_fly = fly demo_bezier never_throws never_throws demo_view
                (no_options\<lparr>opt_x := Some 100, opt_y := Some 0\<rparr>)"

definition demo_slide :: adapter where
  "demo_slide = slide demo_bezier never_throws never_throws demo_view no_options"

text \<open>The same view before its native view is realized.\<close>

definition unrealized_view :: View where
  "unrealized_view = demo_view\<lparr>nativeViewProtected := False\<rparr>"

text \<open>
  States reached by a fade: an intro whose animation is playing; an intro that has run to
  its end; an intro whose animation waits for its \<^verbatim>\<open>setTimeout\<close> callback.
\<close>

definition demo_playing :: state where
  "demo_playing = run Plain demo_fade (initial demo_view)
                    [Tick 0 (Some 1), Timeout, Tick (3/10) (Some (7/10))]"

definition demo_finished :: state where
  "demo_finished = run Plain demo_fade (initial demo_view)
                     [Tick 0 (Some 1), Timeout, Tick 1 (Some 0), Finished 0]"

definition demo_pending :: state where
  "demo_pending = run Traced demo_fade (initial demo_view)
                    [Tick 0 (Some 1), Tick (3/10) (Some (7/10))]"

text \<open>A fly that is leaving, after its first tick \<open>(0.6, 0.4)\<close>.\<close>

definition demo_leaving :: "revision \<Rightarrow> state" where
  "demo_leaving rv = snd (tick rv demo_fly (3/5) (Some (2/5)) (initial demo_view))"

section \<open>Properties\<close>

subsection \<open>What each statement of the tick changes\<close>

lemmas adapter_defs = fade_def fly_def slide_def asSvelteTransition_def resolveCurve_def orDefault_def
  demo_bezier_def never_throws_def demo_view_def no_options_def demo_fade_def demo_fly_def demo_slide_def
  unrealized_view_def demo_playing_def demo_finished_def demo_pending_def demo_leaving_def

lemmas tick_defs = tick_def tickBody_def checkDirection_def andThen_def firstFrame_def inToOut_def outToIn_def startAnimation_def
  nsAnimation_def animateBlock_def cancelNativeAnimation_def applyAnimAtTime_def assignStyle_def initial_def
  cubicBezier_def step_def run_def

lemma applyAnimAtTime_view: "\<exists>c v. applyAnimAtTime rv cfg x s = (c, s\<lparr>view := v\<rparr>)"
  by (auto simp: applyAnimAtTime_def Let_def split: option.split prod.split)

lemma applyAnimAtTime_proj [simp]:
  "direction (snd (applyAnimAtTime rv cfg x s)) = direction s"
  "animation (snd (applyAnimAtTime rv cfg x s)) = animation s"
  "last_t (snd (applyAnimAtTime rv cfg x s)) = last_t s"
  "animations (snd (applyAnimAtTime rv cfg x s)) = animations s"
  "timeouts (snd (applyAnimAtTime rv cfg x s)) = timeouts s"
  using applyAnimAtTime_view [of rv cfg x s] by auto

lemma cancelNativeAnimation_proj [simp]:
  "direction (cancelNativeAnimation s) = direction s"
  "animation (cancelNativeAnimation s) = None"
  "last_t (cancelNativeAnimation s) = last_t s"
  "view (cancelNativeAnimation s) = view s"
  "timeouts (cancelNativeAnimation s) = timeouts s"
  "length (animations (cancelNativeAnimation s)) = length (animations s)"
  by (simp_all add: cancelNativeAnimation_def split: option.split)

lemma andThen_Normal [simp]: "andThen (Normal, s) f = f s"
  by (simp add: andThen_def)

lemma andThen_Thrown [simp]: "andThen (Thrown, s) f = (Thrown, s)"
  by (simp add: andThen_def)

lemma snd_andThen:
  "snd (andThen r f) = (if fst r = Normal then snd (f (snd r)) else snd r)"
  by (cases r; cases "fst r") (auto simp: andThen_def)

lemma fst_andThen:
  "fst (andThen r f) = (if fst r = Normal then fst (f (snd r)) else Thrown)"
  by (cases r; cases "fst r") (auto simp: andThen_def)

lemma firstFrame_proj [simp]:
  "animation (snd (firstFrame rv cfg t u s)) = animation s"
  "animations (snd (firstFrame rv cfg t u s)) = animations s"
  "timeouts (snd (firstFrame rv cfg t u s)) = timeouts s"
  by (simp_all add: firstFrame_def snd_andThen)

lemma inToOut_proj [simp]:
  "length (animations (snd (inToOut rv cfg t s))) = length (animations s)"
  "timeouts (snd (inToOut rv cfg t s)) = timeouts s"
  by (simp_all add: inToOut_def)

lemma outToIn_proj [simp]:
  "length (animations (snd (outToIn rv cfg t s))) = length (animations s)"
  "timeouts (snd (outToIn rv cfg t s)) = timeouts s"
  by (simp_all add: outToIn_def)

lemma checkDirection_length [simp]:
  "length (animations (snd (checkDirection rv cfg t u s))) = length (animations s)"
  by (simp add: checkDirection_def snd_andThen)

lemma startAnimation_direction [simp]:
  "direction (snd (startAnimation rv cfg t u s)) = direction s"
  by (simp add: startAnimation_def animateBlock_def Let_def split: option.split revision.split)

lemma startAnimation_last_t [simp]:
  "last_t (snd (startAnimation rv cfg t u s)) = last_t s"
  by (simp add: startAnimation_def animateBlock_def Let_def split: option.split revision.split)

lemma startAnimation_creates:
  assumes "length (animations (snd (startAnimation rv cfg t u s))) \<noteq> length (animations s)"
  shows "animation s = None"
    and "fst (startAnimation rv cfg t u s) = Normal"
    and "animation (snd (startAnimation rv cfg t u s)) = Some (length (animations s))"
    and "length (animations (snd (startAnimation rv cfg t u s))) = Suc (length (animations s))"
    and "request (animations (snd (startAnimation rv cfg t u s)) ! length (animations s))
           = nsAnimation rv cfg t u (direction s)"
  using assms
  by (auto simp: startAnimation_def animateBlock_def Let_def nth_append
           split: option.splits revision.splits if_splits)

lemma tick_creates:
  assumes "length (animations (snd (tick rv cfg t uo s))) \<noteq> length (animations s)"
  defines "u \<equiv> (case uo of None \<Rightarrow> 1 - t | Some w \<Rightarrow> w)"
  defines "s3 \<equiv> snd (checkDirection rv cfg t u s)"
  shows "fst (checkDirection rv cfg t u s) = Normal"
    and "animation s3 = None"
    and "fst (tick rv cfg t uo s) = Normal"
    and "direction (snd (tick rv cfg t uo s)) = direction s3"
    and "animation (snd (tick rv cfg t uo s)) = Some (length (animations s))"
    and "length (animations (snd (tick rv cfg t uo s))) = Suc (length (animations s))"
    and "request (animations (snd (tick rv cfg t uo s)) ! length (animations s))
           = nsAnimation rv cfg t u (direction s3)"
proof -
  have n: "fst (checkDirection rv cfg t u s) = Normal"
  proof (rule ccontr)
    assume "fst (checkDirection rv cfg t u s) \<noteq> Normal"
    then have "snd (tick rv cfg t uo s) = snd (checkDirection rv cfg t u s)"
      by (simp add: tick_def tickBody_def snd_andThen u_def)
    with assms(1) show False by simp
  qed
  then have eq: "tick rv cfg t uo s = startAnimation rv cfg t u (s3\<lparr>last_t := t\<rparr>)"
    by (cases "checkDirection rv cfg t u s") (simp add: tick_def tickBody_def u_def s3_def)
  have len: "length (animations s3) = length (animations s)"
    by (simp add: s3_def)
  from assms(1) have c: "length (animations (snd (startAnimation rv cfg t u (s3\<lparr>last_t := t\<rparr>))))
      \<noteq> length (animations (s3\<lparr>last_t := t\<rparr>))"
    by (simp add: eq len)
  show "fst (checkDirection rv cfg t u s) = Normal" by (rule n)
  from startAnimation_creates(1) [OF c] show "animation s3 = None" by simp
  from startAnimation_creates(2) [OF c] show "fst (tick rv cfg t uo s) = Normal" by (simp add: eq)
  show "direction (snd (tick rv cfg t uo s)) = direction s3" by (simp add: eq)
  from startAnimation_creates(3) [OF c] show "animation (snd (tick rv cfg t uo s)) = Some (length (animations s))"
    by (simp add: eq len)
  from startAnimation_creates(4) [OF c] show "length (animations (snd (tick rv cfg t uo s))) = Suc (length (animations s))"
    by (simp add: eq len)
  from startAnimation_creates(5) [OF c] show "request (animations (snd (tick rv cfg t uo s)) ! length (animations s))
           = nsAnimation rv cfg t u (direction s3)"
    by (simp add: eq len)
qed

lemma forEachKey_Plain: "fst (forEachKey Plain v d) = Normal"
proof (induction d arbitrary: v)
  case Nil
  show ?case by simp
next
  case (Cons e es)
  obtain w where "assign Plain v e = Some w"
    by (cases e; cases "case e of Scale p \<Rightarrow> p | Translate p \<Rightarrow> p | _ \<Rightarrow> Pair 0 0") auto
  with Cons show ?case by simp
qed

lemma applyAnimAtTime_Plain: "fst (applyAnimAtTime Plain cfg x s) = Normal"
  using forEachKey_Plain [of "view s" "nativeAnimationProps cfg x"]
  by (auto simp: applyAnimAtTime_def Let_def split: option.split prod.split)

lemma applyAnimAtTime_override:
  "applyNativeAnimationProps cfg = Some f \<Longrightarrow>
     applyAnimAtTime rv cfg x s = (Normal, s\<lparr>view := f (view s) (nativeAnimationProps cfg x)\<rparr>)"
  by (simp add: applyAnimAtTime_def)

lemma firstFrame_known:
  "direction s \<noteq> Unknown \<Longrightarrow> firstFrame rv cfg t u s = (Normal, s)"
  by (simp add: firstFrame_def)

lemma firstFrame_Normal_known:
  "fst (firstFrame rv cfg t u s) = Normal \<Longrightarrow> direction (snd (firstFrame rv cfg t u s)) \<noteq> Unknown"
  by (auto simp: firstFrame_def fst_andThen snd_andThen split: if_splits)

lemma inToOut_direction:
  "direction (snd (inToOut rv cfg t s)) =
     (if direction s = In \<and> last_t s > t then Out else direction s)"
  by (simp add: inToOut_def)

lemma outToIn_direction:
  "direction (snd (outToIn rv cfg t s)) =
     (if direction s = Out \<and> last_t s < t then In else direction s)"
  by (simp add: outToIn_def)

lemma inToOut_last_t [simp]: "last_t (snd (inToOut rv cfg t s)) = last_t s"
  by (simp add: inToOut_def)

lemma outToIn_last_t [simp]: "last_t (snd (outToIn rv cfg t s)) = last_t s"
  by (simp add: outToIn_def)

lemma checkDirection_known:
  "direction s \<noteq> Unknown \<Longrightarrow> direction (snd (checkDirection rv cfg t u s)) \<noteq> Unknown"
  by (simp add: checkDirection_def firstFrame_known snd_andThen inToOut_direction outToIn_direction)

lemma checkDirection_Normal_known:
  assumes "fst (checkDirection rv cfg t u s) = Normal"
  shows "direction (snd (checkDirection rv cfg t u s)) \<noteq> Unknown"
proof -
  from assms have f: "fst (firstFrame rv cfg t u s) = Normal"
    by (auto simp: checkDirection_def fst_andThen split: if_splits)
  then have "direction (snd (firstFrame rv cfg t u s)) \<noteq> Unknown"
    by (rule firstFrame_Normal_known)
  with f show ?thesis
    by (simp add: checkDirection_def snd_andThen inToOut_direction outToIn_direction)
qed

lemma tick_direction:
  "direction (snd (tick rv cfg t uo s)) =
     direction (snd (checkDirection rv cfg t (case uo of None \<Rightarrow> 1 - t | Some w \<Rightarrow> w) s))"
  by (simp add: tick_def tickBody_def snd_andThen)

lemma tick_known:
  "direction s \<noteq> Unknown \<Longrightarrow> direction (snd (tick rv cfg t uo s)) \<noteq> Unknown"
  by (simp add: tick_direction checkDirection_known)


lemma checkDirection_Normal:
  assumes "\<And>x s'. fst (applyAnimAtTime rv cfg x s') = Normal"
  shows "fst (checkDirection rv cfg t u s) = Normal"
  by (simp add: checkDirection_def firstFrame_def inToOut_def outToIn_def fst_andThen snd_andThen assms)

lemma tick_last_t:
  assumes "fst (checkDirection rv cfg t (case uo of None \<Rightarrow> 1 - t | Some w \<Rightarrow> w) s) = Normal"
  shows "last_t (snd (tick rv cfg t uo s)) = t"
  using assms by (simp add: tick_def tickBody_def snd_andThen)

lemma step_known:
  "direction s \<noteq> Unknown \<Longrightarrow> direction (step rv cfg s e) \<noteq> Unknown"
  by (cases e) (simp_all add: step_def tick_known animateBlock_def split: option.split)

lemma run_known:
  "direction s \<noteq> Unknown \<Longrightarrow> direction (run rv cfg s es) \<noteq> Unknown"
  by (induction es arbitrary: s) (simp_all add: run_def step_known)

subsection \<open>The first frame\<close>

text \<open>
  Claim C1 at a failing input. In the traced copy the first tick \<open>(0, 1)\<close> of a fly has
  \<open>u > 0.5\<close> and takes the entering branch, but applying the progress-0 definition throws
  at the \<^verbatim>\<open>translate\<close> entry before \<^verbatim>\<open>direction = AnimationDirection.In\<close> is reached: the
  state does not become In and \<open>translateX\<close> is not snapped to 100. The copy
  \<^verbatim>\<open>src/transitions/index.ts\<close> snaps the view and becomes In on the same tick.
\<close>

theorem first_frame_throws_in_traced_copy:
  "direction (initial demo_view) = Unknown
   \<and> isIntro Traced 0 1
   \<and> nativeAnimationProps demo_fly 0 = [Opacity 0, Translate (Pair 100 0)]
   \<and> fst (firstFrame Traced demo_fly 0 1 (initial demo_view)) = Thrown
   \<and> direction (snd (firstFrame Traced demo_fly 0 1 (initial demo_view))) = Unknown
   \<and> translateX (view (snd (firstFrame Traced demo_fly 0 1 (initial demo_view)))) = 0
   \<and> isIntro Plain 0 1
   \<and> fst (firstFrame Plain demo_fly 0 1 (initial demo_view)) = Normal
   \<and> direction (snd (firstFrame Plain demo_fly 0 1 (initial demo_view))) = In
   \<and> translateX (view (snd (firstFrame Plain demo_fly 0 1 (initial demo_view)))) = 100
   \<and> style (view (snd (firstFrame Plain demo_fly 0 1 (initial demo_view))))
        = Some [''opacity'' \<mapsto> Number 0]"
  by (simp add: tick_defs adapter_defs)

text \<open>
  What the first frame does where the progress-0 definition applies without an exception.
  The traced copy takes the entering branch exactly when \<open>u > 0.5\<close>, the copy
  \<^verbatim>\<open>src/transitions/index.ts\<close> exactly when \<open>t < 0.5\<close>. On the entering branch the progress-0
  definition is applied at once and the state becomes In with \<open>last_t = 0\<close> (and is still
  In at the end of the tick when \<open>0 \<le> t\<close>); on the other branch the state becomes Out with
  \<open>last_t = t\<close>, nothing is applied, and the state is Out at the end of the tick.
\<close>

lemma first_frame_branches:
  assumes "direction s = Unknown"
  shows "(isIntro Plain t u \<longleftrightarrow> t < 0.5)
     \<and> (isIntro Traced t u \<longleftrightarrow> u > 0.5)
     \<and> (isIntro rv t u \<longrightarrow> fst (applyAnimAtTime rv cfg 0 s) = Normal \<longrightarrow>
           firstFrame rv cfg t u s
             = (Normal, (snd (applyAnimAtTime rv cfg 0 s))\<lparr>direction := In, last_t := 0\<rparr>)
           \<and> (0 \<le> t \<longrightarrow> direction (snd (tick rv cfg t (Some u) s)) = In))
     \<and> (\<not> isIntro rv t u \<longrightarrow>
           firstFrame rv cfg t u s = (Normal, s\<lparr>direction := Out, last_t := t\<rparr>)
           \<and> direction (snd (tick rv cfg t (Some u) s)) = Out)"
proof -
  have i: "firstFrame rv cfg t u s
             = (Normal, (snd (applyAnimAtTime rv cfg 0 s))\<lparr>direction := In, last_t := 0\<rparr>)"
    if "isIntro rv t u" "fst (applyAnimAtTime rv cfg 0 s) = Normal"
    using that assms by (cases "applyAnimAtTime rv cfg 0 s") (simp add: firstFrame_def)
  have id: "direction (snd (tick rv cfg t (Some u) s)) = In"
    if "isIntro rv t u" "fst (applyAnimAtTime rv cfg 0 s) = Normal" "0 \<le> t"
    using that i [OF that(1,2)]
    by (simp add: tick_direction checkDirection_def snd_andThen inToOut_direction outToIn_direction)
  have out: "firstFrame rv cfg t u s = (Normal, s\<lparr>direction := Out, last_t := t\<rparr>)"
    if "\<not> isIntro rv t u"
    using that assms by (simp add: firstFrame_def)
  have od: "direction (snd (tick rv cfg t (Some u) s)) = Out"
    if "\<not> isIntro rv t u"
    using out [OF that]
    by (simp add: tick_direction checkDirection_def snd_andThen inToOut_direction outToIn_direction)
  from i id out od show ?thesis by simp
qed

subsection \<open>The requests handed to the native toolkit\<close>

text \<open>
  Claim C4. Whenever a tick creates a native animation while the direction is In, the
  request uses the full configured curve if \<open>t = 0\<close> and the sub-curve over \<open>[t, 1]\<close>
  otherwise, normalized; its duration is \<open>(1 - t)\<close> times the configured duration; and its
  delay is zero whatever the configured delay is. This holds in both copies. A tick creates
  a native animation when the list of native animations grows; the new handle is the next
  index.
\<close>

theorem intro_request:
  assumes "length (animations (snd (tick rv cfg t uo s))) \<noteq> length (animations s)"
      and "direction (snd (tick rv cfg t uo s)) = In"
  shows "let s' = snd (tick rv cfg t uo s);
             bz = bezier_module cfg;
             forwardCurve = (if t = 0 then svelteCurve cfg else partialCurveFrom bz (svelteCurve cfg) t 1);
             finalCurve = normalizeCurve bz forwardCurve;
             req = request (animations s' ! length (animations s))
         in animation s' = Some (length (animations s)) \<and>
            ns_props req = nativeAnimationProps cfg 1 \<and>
            ns_curve req = cubicBezier (x1 finalCurve) (y1 finalCurve) (x2 finalCurve) (y2 finalCurve) \<and>
            ns_duration req = (1 - t) * duration cfg \<and>
            ns_delay req = 0"
proof -
  let ?u = "case uo of None \<Rightarrow> 1 - t | Some w \<Rightarrow> w"
  have d: "direction (snd (checkDirection rv cfg t ?u s)) = In"
    using tick_creates(4) [OF assms(1)] assms(2) by simp
  have r: "request (animations (snd (tick rv cfg t uo s)) ! length (animations s))
             = nsAnimation rv cfg t ?u In"
    using tick_creates(7) [OF assms(1)] d by simp
  show ?thesis
    using tick_creates(5) [OF assms(1)] by (simp add: r nsAnimation_def Let_def)
qed

text \<open>The theorem at a fade that turns from leaving to entering at \<open>t = 0.75\<close>.\<close>

theorem intro_request_witness:
  "length (animations (snd (tick Plain demo_fade (3/4) (Some (1/4))
       (snd (tick Plain demo_fade (1/2) (Some (1/2)) (initial demo_view))))))
     \<noteq> length (animations (snd (tick Plain demo_fade (1/2) (Some (1/2)) (initial demo_view))))
   \<and> direction (snd (tick Plain demo_fade (3/4) (Some (1/4))
       (snd (tick Plain demo_fade (1/2) (Some (1/2)) (initial demo_view))))) = In
   \<and> request (animations (snd (tick Plain demo_fade (3/4) (Some (1/4))
       (snd (tick Plain demo_fade (1/2) (Some (1/2)) (initial demo_view))))) ! 1)
     = \<lparr> ns_props = [Opacity 1], ns_delay = 0,
         ns_curve = cubicBezier 0 (3/4) 1 1, ns_duration = 100 \<rparr>"
  using intro_request [of Plain demo_fade "3/4" "Some (1/4)"
      "snd (tick Plain demo_fade (1/2) (Some (1/2)) (initial demo_view))"]
  by (simp add: tick_defs adapter_defs Let_def)

text \<open>
  Claim C2, as amended. Whenever a tick creates a native animation while the direction is
  Out, the effective progress \<open>e\<close> that slices and times it is \<open>u\<close> in the traced copy and
  \<open>t\<close> in \<^verbatim>\<open>src/transitions/index.ts\<close>: the forward curve is the full configured curve if
  \<open>e = 1\<close> and the sub-curve over \<open>[0, e]\<close> otherwise; it is time-reversed, then normalized;
  the duration is \<open>e\<close> times the configured duration, and the delay is zero.
\<close>

theorem outro_request:
  assumes "length (animations (snd (tick rv cfg t uo s))) \<noteq> length (animations s)"
      and "direction (snd (tick rv cfg t uo s)) = Out"
  shows "let s' = snd (tick rv cfg t uo s);
             bz = bezier_module cfg;
             e = effectiveT rv t (case uo of None \<Rightarrow> 1 - t | Some u \<Rightarrow> u);
             forwardCurve = (if e = 1 then svelteCurve cfg else partialCurveFrom bz (svelteCurve cfg) 0 e);
             finalCurve = normalizeCurve bz (reverseCurve bz forwardCurve);
             req = request (animations s' ! length (animations s))
         in animation s' = Some (length (animations s)) \<and>
            ns_props req = nativeAnimationProps cfg 0 \<and>
            ns_curve req = cubicBezier (x1 finalCurve) (y1 finalCurve) (x2 finalCurve) (y2 finalCurve) \<and>
            ns_duration req = e * duration cfg \<and>
            ns_delay req = 0"
proof -
  let ?u = "case uo of None \<Rightarrow> 1 - t | Some w \<Rightarrow> w"
  have d: "direction (snd (checkDirection rv cfg t ?u s)) = Out"
    using tick_creates(4) [OF assms(1)] assms(2) by simp
  have r: "request (animations (snd (tick rv cfg t uo s)) ! length (animations s))
             = nsAnimation rv cfg t ?u Out"
    using tick_creates(7) [OF assms(1)] d by simp
  show ?thesis
    using tick_creates(5) [OF assms(1)] by (simp add: r nsAnimation_def Let_def)
qed

text \<open>The theorem at the first tick \<open>(0.5, 0.5)\<close> of a fade, in the traced copy.\<close>

theorem outro_request_witness:
  "length (animations (snd (tick Traced demo_fade (1/2) (Some (1/2)) (initial demo_view))))
     \<noteq> length (animations (initial demo_view))
   \<and> direction (snd (tick Traced demo_fade (1/2) (Some (1/2)) (initial demo_view))) = Out
   \<and> effectiveT Traced (1/2) (1/2) = 1/2
   \<and> request (animations (snd (tick Traced demo_fade (1/2) (Some (1/2)) (initial demo_view))) ! 0)
       = \<lparr> ns_props = [Opacity 0], ns_delay = 0,
           ns_curve = cubicBezier 0 (1/2) 1 1, ns_duration = 200 \<rparr>"
  using outro_request [of Traced demo_fade "1/2" "Some (1/2)" "initial demo_view"]
  by (simp add: tick_defs adapter_defs Let_def)

text \<open>
  Claim C2 as it was stated fails in \<^verbatim>\<open>src/transitions/index.ts\<close>: on the first tick
  \<open>(1, 0)\<close> of a fade the request lasts \<open>t\<close> times the configured duration, 400, not \<open>u\<close>
  times it, and carries the full curve reversed, not a slice over \<open>[0, u]\<close>.
\<close>

theorem outro_timed_by_t_in_plain_copy:
  "direction (snd (tick Plain demo_fade 1 (Some 0) (initial demo_view))) = Out
   \<and> length (animations (snd (tick Plain demo_fade 1 (Some 0) (initial demo_view)))) = 1
   \<and> duration demo_fade = 400
   \<and> ns_duration (request (animations (snd (tick Plain demo_fade 1 (Some 0) (initial demo_view))) ! 0)) = 400
   \<and> ns_duration (request (animations (snd (tick Plain demo_fade 1 (Some 0) (initial demo_view))) ! 0))
        \<noteq> 0 * duration demo_fade
   \<and> ns_curve (request (animations (snd (tick Plain demo_fade 1 (Some 0) (initial demo_view))) ! 0))
        = cubicBezier 0 0 1 1"
  by (simp add: tick_defs adapter_defs)

subsection \<open>The transitions\<close>

text \<open>
  Claim C9. The definition that \<^verbatim>\<open>fly\<close> hands to the adapter has, at every progress
  \<open>t\<close>, opacity \<open>t\<close> times the baseline opacity and the translation
  (baseline translateX + \<open>(1 - t)\<close> x, baseline translateY + \<open>(1 - t)\<close> y); with
  x = 100, y = 0 and baseline translateX = 0 the translation at \<open>t = 0.5\<close> has x = 50.
\<close>

theorem fly_definition:
  "nativeAnimationProps (fly bz ct pt v opts) t =
     [Opacity (t * opacity v),
      Translate (Pair (translateX v + (1 - t) * orDefault (opt_x opts) 0)
                      (translateY v + (1 - t) * orDefault (opt_y opts) 0))]
   \<and> nativeAnimationProps
       (fly bz ct pt (v\<lparr>translateX := 0\<rparr>) (opts\<lparr>opt_x := Some 100, opt_y := Some 0\<rparr>)) (1/2) =
     [Opacity (1/2 * opacity v), Translate (Pair 50 (translateY v))]"
  by (simp add: fly_def asSvelteTransition_def orDefault_def Let_def)

subsection \<open>The default of the second argument\<close>

text \<open>
  Claim C10. Calling \<^verbatim>\<open>tick\<close> with its first argument only is calling it with
  \<open>u = 1 - t\<close>: the completion and the resulting state are the same, in both copies.
\<close>

theorem tick_default_u:
  "tick rv cfg t None s = tick rv cfg t (Some (1 - t)) s
   \<and> step rv cfg s (Tick t None) = step rv cfg s (Tick t (Some (1 - t)))"
  by (simp add: tick_def step_def)

subsection \<open>The native animation handle\<close>

lemma onlyStoredPlays_upd [simp]:
  "onlyStoredPlays (s\<lparr>view := v\<rparr>) = onlyStoredPlays s"
  "onlyStoredPlays (s\<lparr>direction := d\<rparr>) = onlyStoredPlays s"
  "onlyStoredPlays (s\<lparr>last_t := x\<rparr>) = onlyStoredPlays s"
  "onlyStoredPlays (s\<lparr>timeouts := n\<rparr>) = onlyStoredPlays s"
  by (simp_all add: onlyStoredPlays_def)

lemma onlyStoredPlays_apply [simp]:
  "onlyStoredPlays (snd (applyAnimAtTime rv cfg x s)) = onlyStoredPlays s"
  using applyAnimAtTime_view [of rv cfg x s] by auto

lemma onlyStoredPlays_cancel:
  "onlyStoredPlays s \<Longrightarrow> onlyStoredPlays (cancelNativeAnimation s)"
proof -
  assume inv: "onlyStoredPlays s"
  have quiet: "\<not> isPlaying (animations (cancelNativeAnimation s) ! i)"
    if "i < length (animations s)" for i
  proof (cases "isPlaying (animations s ! i)")
    case True
    with inv that have "animation s = Some i" by (simp add: onlyStoredPlays_def)
    with True that show ?thesis by (simp add: cancelNativeAnimation_def)
  next
    case False
    then show ?thesis
      by (auto simp: cancelNativeAnimation_def nth_list_update split: option.splits)
  qed
  then show ?thesis by (simp add: onlyStoredPlays_def)
qed

lemma onlyStoredPlays_firstFrame:
  "onlyStoredPlays s \<Longrightarrow> onlyStoredPlays (snd (firstFrame rv cfg t u s))"
  by (simp add: firstFrame_def snd_andThen)

lemma onlyStoredPlays_inToOut:
  "onlyStoredPlays s \<Longrightarrow> onlyStoredPlays (snd (inToOut rv cfg t s))"
  using onlyStoredPlays_cancel [of "s\<lparr>direction := Out\<rparr>"] by (simp add: inToOut_def)

lemma onlyStoredPlays_outToIn:
  "onlyStoredPlays s \<Longrightarrow> onlyStoredPlays (snd (outToIn rv cfg t s))"
  using onlyStoredPlays_cancel [of "s\<lparr>direction := In\<rparr>"] by (simp add: outToIn_def)

lemma onlyStoredPlays_checkDirection:
  "onlyStoredPlays s \<Longrightarrow> onlyStoredPlays (snd (checkDirection rv cfg t u s))"
  by (simp add: checkDirection_def snd_andThen onlyStoredPlays_firstFrame
        onlyStoredPlays_inToOut onlyStoredPlays_outToIn)

lemma onlyStoredPlays_animateBlock:
  "onlyStoredPlays s \<Longrightarrow> onlyStoredPlays (animateBlock cfg s)"
  by (auto simp: onlyStoredPlays_def animateBlock_def nth_list_update split: option.splits)

lemma onlyStoredPlays_startAnimation:
  "onlyStoredPlays s \<Longrightarrow> onlyStoredPlays (snd (startAnimation rv cfg t u s))"
  by (auto simp: onlyStoredPlays_def startAnimation_def animateBlock_def Let_def nth_append
        nth_list_update
      split: option.splits revision.splits if_splits)

lemma onlyStoredPlays_tick:
  "onlyStoredPlays s \<Longrightarrow> onlyStoredPlays (snd (tick rv cfg t uo s))"
  by (simp add: tick_def tickBody_def snd_andThen onlyStoredPlays_checkDirection
        onlyStoredPlays_startAnimation)

lemma onlyStoredPlays_step:
  "onlyStoredPlays s \<Longrightarrow> onlyStoredPlays (step rv cfg s e)"
proof (cases e)
  case (Tick t uo)
  assume "onlyStoredPlays s"
  then show ?thesis by (simp add: Tick step_def onlyStoredPlays_tick)
next
  case Timeout
  assume "onlyStoredPlays s"
  then show ?thesis by (simp add: Timeout step_def onlyStoredPlays_animateBlock)
next
  case (Finished h)
  assume "onlyStoredPlays s"
  then show ?thesis by (auto simp: Finished step_def onlyStoredPlays_def nth_list_update)
qed

lemma onlyStoredPlays_run:
  "onlyStoredPlays s \<Longrightarrow> onlyStoredPlays (run rv cfg s es)"
  by (induction es arbitrary: s) (simp_all add: run_def onlyStoredPlays_step)

lemma onlyStoredPlays_initial: "onlyStoredPlays (initial v)"
  by (simp add: onlyStoredPlays_def initial_def)

lemma checkDirection_flip:
  assumes "direction s \<noteq> Unknown"
      and "direction (snd (checkDirection rv cfg t u s)) \<noteq> direction s"
  shows "animation (snd (checkDirection rv cfg t u s)) = None"
    and "animations (snd (checkDirection rv cfg t u s)) = animations (cancelNativeAnimation s)"
  using assms
  by (auto simp: checkDirection_def firstFrame_known snd_andThen inToOut_def outToIn_def
        cancelNativeAnimation_def split: if_splits option.splits)

lemma cancelNativeAnimation_handle:
  assumes "animation s = Some h" and "h < length (animations s)"
  shows "\<not> isPlaying (animations (cancelNativeAnimation s) ! h)"
    and "cancelled (animations (cancelNativeAnimation s) ! h)
           \<longleftrightarrow> cancelled (animations s ! h) \<or> isPlaying (animations s ! h)"
  using assms by (auto simp: cancelNativeAnimation_def)

text \<open>
  Claim C5, as amended. At every point of an adapter's life every native animation that
  is playing is the stored one, so at most one is playing; a tick creates a handle only
  when none is stored once the direction checks are done, and the new handle is a fresh
  index; and whenever the direction flips, the stored reference is cleared before
  anything is created, and the stored handle is cancelled exactly when it is playing at
  that moment: a stored handle that is not playing is dropped without \<^verbatim>\<open>cancel()\<close>.
\<close>

theorem handle_lifecycle:
  "onlyStoredPlays (run rv cfg (initial v) es)
   \<and> (\<forall>i j. i < length (animations (run rv cfg (initial v) es)) \<longrightarrow>
              j < length (animations (run rv cfg (initial v) es)) \<longrightarrow>
              isPlaying (animations (run rv cfg (initial v) es) ! i) \<longrightarrow>
              isPlaying (animations (run rv cfg (initial v) es) ! j) \<longrightarrow> i = j)
   \<and> (length (animations (snd (tick rv cfg t uo s))) \<noteq> length (animations s) \<longrightarrow>
        animation (snd (checkDirection rv cfg t (case uo of None \<Rightarrow> 1 - t | Some w \<Rightarrow> w) s)) = None
        \<and> animation (snd (tick rv cfg t uo s)) = Some (length (animations s)))
   \<and> (direction s \<noteq> Unknown \<longrightarrow> direction (snd (checkDirection rv cfg t u s)) \<noteq> direction s \<longrightarrow>
        animation (snd (checkDirection rv cfg t u s)) = None
        \<and> (\<forall>h. animation s = Some h \<longrightarrow> h < length (animations s) \<longrightarrow>
              \<not> isPlaying (animations (snd (checkDirection rv cfg t u s)) ! h)
              \<and> (cancelled (animations (snd (checkDirection rv cfg t u s)) ! h)
                   \<longleftrightarrow> cancelled (animations s ! h) \<or> isPlaying (animations s ! h))))"
proof -
  let ?r = "run rv cfg (initial v) es"
  have inv: "onlyStoredPlays ?r"
    by (rule onlyStoredPlays_run [OF onlyStoredPlays_initial])
  have one: "i = j"
    if "i < length (animations ?r)" "j < length (animations ?r)"
       "isPlaying (animations ?r ! i)" "isPlaying (animations ?r ! j)" for i j
  proof -
    from inv have all: "\<forall>k<length (animations ?r). isPlaying (animations ?r ! k) \<longrightarrow> animation ?r = Some k"
      by (simp add: onlyStoredPlays_def)
    from all that(1,3) have "animation ?r = Some i" by blast
    moreover from all that(2,4) have "animation ?r = Some j" by blast
    ultimately show ?thesis by simp
  qed
  have create: "animation (snd (checkDirection rv cfg t (case uo of None \<Rightarrow> 1 - t | Some w \<Rightarrow> w) s)) = None
        \<and> animation (snd (tick rv cfg t uo s)) = Some (length (animations s))"
    if "length (animations (snd (tick rv cfg t uo s))) \<noteq> length (animations s)"
    using tick_creates(2) [OF that] tick_creates(5) [OF that] by simp
  have flip: "animation (snd (checkDirection rv cfg t u s)) = None
        \<and> (\<forall>h. animation s = Some h \<longrightarrow> h < length (animations s) \<longrightarrow>
              \<not> isPlaying (animations (snd (checkDirection rv cfg t u s)) ! h)
              \<and> (cancelled (animations (snd (checkDirection rv cfg t u s)) ! h)
                   \<longleftrightarrow> cancelled (animations s ! h) \<or> isPlaying (animations s ! h)))"
    if "direction s \<noteq> Unknown" "direction (snd (checkDirection rv cfg t u s)) \<noteq> direction s"
    using checkDirection_flip [OF that] cancelNativeAnimation_handle [of s] by simp
  from inv one create flip show ?thesis by blast
qed

text \<open>The theorem at a fade that turns while its intro animation is playing.\<close>

theorem handle_lifecycle_witness:
  "onlyStoredPlays demo_playing
   \<and> length (animations (snd (tick Plain demo_fade (1/10) (Some (9/10)) demo_playing)))
        \<noteq> length (animations demo_playing)
   \<and> animation (snd (checkDirection Plain demo_fade (1/10) (9/10) demo_playing)) = None
   \<and> animation (snd (tick Plain demo_fade (1/10) (Some (9/10)) demo_playing)) = Some 1
   \<and> direction demo_playing = In
   \<and> direction (snd (checkDirection Plain demo_fade (1/10) (9/10) demo_playing)) = Out
   \<and> animation demo_playing = Some 0
   \<and> isPlaying (animations demo_playing ! 0)
   \<and> \<not> isPlaying (animations (snd (checkDirection Plain demo_fade (1/10) (9/10) demo_playing)) ! 0)
   \<and> cancelled (animations (snd (checkDirection Plain demo_fade (1/10) (9/10) demo_playing)) ! 0)"
  using handle_lifecycle [of Plain demo_fade demo_view
      "[Tick 0 (Some 1), Timeout, Tick (3/10) (Some (7/10))]" "1/10" "Some (9/10)" demo_playing "9/10"]
  by (simp add: tick_defs adapter_defs Let_def)

text \<open>
  Claim C5 as it was stated fails: a fade that has finished its intro, and a fade whose
  intro animation still waits for its \<^verbatim>\<open>setTimeout\<close> callback, both turn to Out without
  \<^verbatim>\<open>cancel()\<close> being called on the stored handle. In the second case the dropped handle
  has neither been cancelled nor played when the new one starts to play.
\<close>

theorem stored_handle_dropped_without_cancel:
  "direction demo_finished = In
   \<and> animation demo_finished = Some 0
   \<and> direction (snd (tick Plain demo_fade (9/10) (Some (1/10)) demo_finished)) = Out
   \<and> animation (snd (tick Plain demo_fade (9/10) (Some (1/10)) demo_finished)) = Some 1
   \<and> \<not> cancelled (animations (snd (tick Plain demo_fade (9/10) (Some (1/10)) demo_finished)) ! 0)
   \<and> direction demo_pending = In
   \<and> animation demo_pending = Some 0
   \<and> timeouts demo_pending = 1
   \<and> direction (snd (tick Traced demo_fade (1/10) (Some (9/10)) demo_pending)) = Out
   \<and> animation (snd (tick Traced demo_fade (1/10) (Some (9/10)) demo_pending)) = Some 1
   \<and> \<not> cancelled (animations (snd (tick Traced demo_fade (1/10) (Some (9/10)) demo_pending)) ! 0)
   \<and> \<not> isPlaying (animations (snd (tick Traced demo_fade (1/10) (Some (9/10)) demo_pending)) ! 0)
   \<and> isPlaying (animations (snd (tick Traced demo_fade (1/10) (Some (9/10)) demo_pending)) ! 1)"
  by (simp add: tick_defs adapter_defs)

subsection \<open>The built-in mapper\<close>

text \<open>
  Claim C7 at a failing input. In the traced copy a \<^verbatim>\<open>scale\<close> or \<^verbatim>\<open>translate\<close> entry makes
  the built-in mapper throw and leaves the view as it was: the definition of a slide at
  progress 0.25 asks for \<open>scaleY = 0.25\<close> and \<open>scaleY\<close> stays 1. The copy
  \<^verbatim>\<open>src/transitions/index.ts\<close> assigns the pair.
\<close>

theorem builtin_mapper_throws_in_traced_copy:
  "forEachKey Traced demo_view [Scale (Pair 2 3)] = (Thrown, demo_view)
   \<and> forEachKey Traced demo_view [Translate (Pair 5 7)] = (Thrown, demo_view)
   \<and> nativeAnimationProps demo_slide (1/4) = [Scale (Pair 1 (1/4)), Translate (Pair 0 (- 25))]
   \<and> fst (applyAnimAtTime Traced demo_slide (1/4) (initial demo_view)) = Thrown
   \<and> scaleY (view (snd (applyAnimAtTime Traced demo_slide (1/4) (initial demo_view)))) = 1
   \<and> forEachKey Plain demo_view [Scale (Pair 2 3)] = (Normal, demo_view\<lparr>scaleX := 2, scaleY := 3\<rparr>)
   \<and> forEachKey Plain demo_view [Translate (Pair 5 7)]
        = (Normal, demo_view\<lparr>translateX := 5, translateY := 7\<rparr>)"
  by (simp add: tick_defs adapter_defs)

text \<open>
  In \<^verbatim>\<open>src/transitions/index.ts\<close> the built-in mapper never throws: a \<^verbatim>\<open>scale\<close> pair goes
  to \<open>scaleX\<close> and \<open>scaleY\<close>, a \<^verbatim>\<open>translate\<close> pair to \<open>translateX\<close> and \<open>translateY\<close>; in both
  copies every other entry is assigned under its key on the style of the view, or on the
  view itself when it has no style.
\<close>

theorem plain_mapper:
  "assign Plain v (Scale (Pair a b)) = Some (v\<lparr>scaleX := a, scaleY := b\<rparr>)
   \<and> assign Plain v (Translate (Pair a b)) = Some (v\<lparr>translateX := a, translateY := b\<rparr>)
   \<and> assign rv (v\<lparr>style := Some st\<rparr>) (Opacity r)
        = Some (v\<lparr>style := Some (st(key (Opacity r) \<mapsto> Number r))\<rparr>)
   \<and> assign rv (v\<lparr>style := Some st\<rparr>) (BackgroundColor c)
        = Some (v\<lparr>style := Some (st(key (BackgroundColor c) \<mapsto> ColorValue c))\<rparr>)
   \<and> assign rv (v\<lparr>style := Some st\<rparr>) (Rotate r)
        = Some (v\<lparr>style := Some (st(key (Rotate r) \<mapsto> Number r))\<rparr>)
   \<and> assign rv (v\<lparr>style := None\<rparr>) (Opacity r) = Some (v\<lparr>style := None, opacity := r\<rparr>)
   \<and> assign rv (v\<lparr>style := None\<rparr>) (BackgroundColor c) = Some (v\<lparr>style := None, backgroundColor := c\<rparr>)
   \<and> assign rv (v\<lparr>style := None\<rparr>) (Rotate r) = Some (v\<lparr>style := None, rotate := r\<rparr>)
   \<and> fst (forEachKey Plain v d) = Normal"
  by (simp add: assignStyle_def forEachKey_Plain)

subsection \<open>Reversal\<close>

text \<open>
  Claim C3 at a failing input. In the traced copy, a fly that is leaving (first tick
  \<open>(0.6, 0.4)\<close>) and then receives \<open>(0.8, 0.2)\<close> flips to In and cancels its handle, but
  the re-application throws at the \<^verbatim>\<open>translate\<close> entry: \<open>translateX\<close> is not set to 20 and
  \<open>last_t\<close> stays 0.6. The copy \<^verbatim>\<open>src/transitions/index.ts\<close> does both.
\<close>

theorem reversal_throws_in_traced_copy:
  "direction (demo_leaving Traced) = Out
   \<and> last_t (demo_leaving Traced) = 3/5
   \<and> animation (demo_leaving Traced) = Some 0
   \<and> isPlaying (animations (demo_leaving Traced) ! 0)
   \<and> nativeAnimationProps demo_fly (4/5) = [Opacity (4/5), Translate (Pair 20 0)]
   \<and> fst (tick Traced demo_fly (4/5) (Some (1/5)) (demo_leaving Traced)) = Thrown
   \<and> direction (snd (tick Traced demo_fly (4/5) (Some (1/5)) (demo_leaving Traced))) = In
   \<and> cancelled (animations (snd (tick Traced demo_fly (4/5) (Some (1/5)) (demo_leaving Traced))) ! 0)
   \<and> translateX (view (snd (tick Traced demo_fly (4/5) (Some (1/5)) (demo_leaving Traced)))) = 0
   \<and> last_t (snd (tick Traced demo_fly (4/5) (Some (1/5)) (demo_leaving Traced))) = 3/5
   \<and> fst (tick Plain demo_fly (4/5) (Some (1/5)) (demo_leaving Plain)) = Normal
   \<and> direction (snd (tick Plain demo_fly (4/5) (Some (1/5)) (demo_leaving Plain))) = In
   \<and> translateX (view (snd (tick Plain demo_fly (4/5) (Some (1/5)) (demo_leaving Plain)))) = 20
   \<and> last_t (snd (tick Plain demo_fly (4/5) (Some (1/5)) (demo_leaving Plain))) = 4/5"
  by (simp add: tick_defs adapter_defs)

text \<open>
  Where applying a definition never throws (always in \<^verbatim>\<open>src/transitions/index.ts\<close>; in the
  traced copy with an override, or when no definition has a \<^verbatim>\<open>scale\<close> or \<^verbatim>\<open>translate\<close>
  entry), a tick with \<open>t\<close> below \<open>last_t\<close> in state In, or above it in state Out, flips the
  direction, cancels the stored handle if it is playing and clears the reference,
  re-applies the definition at \<open>t\<close>, and leaves \<open>last_t = t\<close>.
\<close>

theorem reversal_reapplies:
  assumes ok: "\<And>x s'. fst (applyAnimAtTime rv cfg x s') = Normal"
      and flip: "direction s = In \<and> t < last_t s \<or> direction s = Out \<and> last_t s < t"
  shows "fst (checkDirection rv cfg t u s) = Normal
     \<and> direction (snd (checkDirection rv cfg t u s)) = (if direction s = In then Out else In)
     \<and> animation (snd (checkDirection rv cfg t u s)) = None
     \<and> animations (snd (checkDirection rv cfg t u s)) = animations (cancelNativeAnimation s)
     \<and> view (snd (checkDirection rv cfg t u s)) = view (snd (applyAnimAtTime rv cfg t s))
     \<and> last_t (snd (tick rv cfg t (Some u) s)) = t"
proof -
  have n: "fst (checkDirection rv cfg t u s) = Normal"
    by (rule checkDirection_Normal [OF ok])
  have k: "direction s \<noteq> Unknown" using flip by auto
  have v: "view (snd (applyAnimAtTime rv cfg t s')) = view (snd (applyAnimAtTime rv cfg t s))"
    if "view s' = view s" for s'
    using that by (simp add: applyAnimAtTime_def Let_def split: option.split prod.split)
  from flip show ?thesis
  proof
    assume a: "direction s = In \<and> t < last_t s"
    then have "snd (checkDirection rv cfg t u s)
                 = snd (applyAnimAtTime rv cfg t (cancelNativeAnimation (s\<lparr>direction := Out\<rparr>)))"
      using ok by (simp add: checkDirection_def firstFrame_known snd_andThen inToOut_def outToIn_def)
    moreover have "animations (cancelNativeAnimation (s\<lparr>direction := Out\<rparr>)) = animations (cancelNativeAnimation s)"
      by (simp add: cancelNativeAnimation_def split: option.split)
    ultimately show ?thesis
      using a n tick_last_t [of rv cfg t "Some u" s] v [of "cancelNativeAnimation (s\<lparr>direction := Out\<rparr>)"]
      by simp
  next
    assume a: "direction s = Out \<and> last_t s < t"
    then have "snd (checkDirection rv cfg t u s)
                 = snd (applyAnimAtTime rv cfg t (cancelNativeAnimation (s\<lparr>direction := In\<rparr>)))"
      using ok by (simp add: checkDirection_def firstFrame_known snd_andThen inToOut_def outToIn_def)
    moreover have "animations (cancelNativeAnimation (s\<lparr>direction := In\<rparr>)) = animations (cancelNativeAnimation s)"
      by (simp add: cancelNativeAnimation_def split: option.split)
    ultimately show ?thesis
      using a n tick_last_t [of rv cfg t "Some u" s] v [of "cancelNativeAnimation (s\<lparr>direction := In\<rparr>)"]
      by simp
  qed
qed

theorem reversal_reapplies_witness:
  "direction (demo_leaving Plain) = Out
   \<and> last_t (demo_leaving Plain) < 4/5
   \<and> fst (checkDirection Plain demo_fly (4/5) (1/5) (demo_leaving Plain)) = Normal
   \<and> direction (snd (checkDirection Plain demo_fly (4/5) (1/5) (demo_leaving Plain))) = In
   \<and> animation (snd (checkDirection Plain demo_fly (4/5) (1/5) (demo_leaving Plain))) = None
   \<and> translateX (view (snd (checkDirection Plain demo_fly (4/5) (1/5) (demo_leaving Plain)))) = 20
   \<and> last_t (snd (tick Plain demo_fly (4/5) (Some (1/5)) (demo_leaving Plain))) = 4/5"
  using reversal_reapplies [where rv = Plain and cfg = demo_fly and s = "demo_leaving Plain"
      and t = "4/5" and u = "1/5", OF applyAnimAtTime_Plain]
  by (simp add: tick_defs adapter_defs)

subsection \<open>The direction\<close>

text \<open>
  Claim C6 at a failing input. In the traced copy the first tick \<open>(0, 1)\<close> of a fly throws
  while the progress-0 definition is applied, before \<^verbatim>\<open>direction\<close> is assigned: the direction
  is still Unknown after the first tick, and after the next ones. The copy
  \<^verbatim>\<open>src/transitions/index.ts\<close> ends the same tick in state In.
\<close>

theorem direction_stays_unknown_in_traced_copy:
  "nativeAnimationProps demo_fly 0 = [Opacity 0, Translate (Pair 100 0)]
   \<and> fst (tick Traced demo_fly 0 (Some 1) (initial demo_view)) = Thrown
   \<and> direction (snd (tick Traced demo_fly 0 (Some 1) (initial demo_view))) = Unknown
   \<and> direction (run Traced demo_fly (initial demo_view)
        [Tick 0 (Some 1), Tick (1/4) (Some (3/4)), Tick (2/5) (Some (3/5))]) = Unknown
   \<and> fst (tick Plain demo_fly 0 (Some 1) (initial demo_view)) = Normal
   \<and> direction (snd (tick Plain demo_fly 0 (Some 1) (initial demo_view))) = In"
  by (simp add: tick_defs adapter_defs)

text \<open>
  Where applying a definition never throws, the direction is Unknown before the first
  tick and In or Out after it, whatever follows; and in both copies, without any
  condition, a direction that is In or Out never becomes Unknown again.
\<close>

theorem direction_known_after_first_tick:
  assumes ok: "\<And>x s'. fst (applyAnimAtTime rv cfg x s') = Normal"
  shows "direction (run rv cfg (initial v) []) = Unknown
     \<and> direction (run rv cfg (initial v) (Tick t uo # es)) \<noteq> Unknown
     \<and> (direction s \<noteq> Unknown \<longrightarrow> direction (run rv cfg s es) \<noteq> Unknown)"
proof -
  let ?u = "case uo of None \<Rightarrow> 1 - t | Some w \<Rightarrow> w"
  have "direction (snd (tick rv cfg t uo (initial v))) \<noteq> Unknown"
    using checkDirection_Normal_known [OF checkDirection_Normal [OF ok], of t ?u "initial v"]
    by (simp add: tick_direction)
  then have "direction (run rv cfg (initial v) (Tick t uo # es)) \<noteq> Unknown"
    using run_known [of "snd (tick rv cfg t uo (initial v))" rv cfg es]
    by (simp add: run_def step_def)
  moreover have "direction (run rv cfg (initial v) []) = Unknown"
    by (simp add: run_def initial_def)
  moreover have "direction s \<noteq> Unknown \<longrightarrow> direction (run rv cfg s es) \<noteq> Unknown"
    by (simp add: run_known)
  ultimately show ?thesis by blast
qed

theorem direction_known_after_first_tick_witness:
  "direction (run Plain demo_fly (initial demo_view) []) = Unknown
   \<and> direction (run Plain demo_fly (initial demo_view)
        [Tick 0 (Some 1), Timeout, Tick (1/2) (Some (1/2)), Tick (1/4) (Some (3/4))]) \<noteq> Unknown
   \<and> direction (demo_leaving Plain) \<noteq> Unknown
   \<and> direction (run Plain demo_fly (demo_leaving Plain)
        [Tick 0 (Some 1), Timeout, Tick (1/2) (Some (1/2)), Tick (1/4) (Some (3/4))]) \<noteq> Unknown"
  using direction_known_after_first_tick [where rv = Plain and cfg = demo_fly and v = demo_view
      and t = 0 and uo = "Some 1" and s = "demo_leaving Plain"
      and es = "[Timeout, Tick (1/2) (Some (1/2)), Tick (1/4) (Some (3/4))]", OF applyAnimAtTime_Plain]
    direction_known_after_first_tick [where rv = Plain and cfg = demo_fly and v = demo_view
      and t = 0 and uo = "Some 1" and s = "demo_leaving Plain"
      and es = "[Tick 0 (Some 1), Timeout, Tick (1/2) (Some (1/2)), Tick (1/4) (Some (3/4))]",
      OF applyAnimAtTime_Plain]
  by (simp add: tick_defs adapter_defs)

subsection \<open>A view that is not realized\<close>

text \<open>
  Claim C8 at a failing input. In the traced copy the first tick \<open>(1, 0)\<close> of a fly on a
  view that is not realized takes the fast path, and the snap to the progress-0
  definition throws at the \<^verbatim>\<open>translate\<close> entry: the tick ends with an exception and
  \<open>translateX\<close> is not set to 100. The copy \<^verbatim>\<open>src/transitions/index.ts\<close> returns with
  \<open>translateX = 100\<close> and no handle.
\<close>

theorem unrealized_snap_throws_in_traced_copy:
  "\<not> nativeViewProtected (view (initial unrealized_view))
   \<and> nativeAnimationProps demo_fly 0 = [Opacity 0, Translate (Pair 100 0)]
   \<and> fst (tick Traced demo_fly 1 (Some 0) (initial unrealized_view)) = Thrown
   \<and> direction (snd (tick Traced demo_fly 1 (Some 0) (initial unrealized_view))) = Out
   \<and> animations (snd (tick Traced demo_fly 1 (Some 0) (initial unrealized_view))) = []
   \<and> translateX (view (snd (tick Traced demo_fly 1 (Some 0) (initial unrealized_view)))) = 0
   \<and> fst (tick Plain demo_fly 1 (Some 0) (initial unrealized_view)) = Normal
   \<and> animations (snd (tick Plain demo_fly 1 (Some 0) (initial unrealized_view))) = []
   \<and> translateX (view (snd (tick Plain demo_fly 1 (Some 0) (initial unrealized_view)))) = 100"
  by (simp add: tick_defs adapter_defs)

text \<open>
  Where applying a definition never throws, a tick that finds no stored handle and a view
  that is not realized applies the definition of the endpoint (progress 1 for In, 0 for
  Out), returns normally, and creates no handle.
\<close>

theorem unrealized_snaps:
  assumes ok: "\<And>x s'. fst (applyAnimAtTime rv cfg x s') = Normal"
      and none: "animation (snd (checkDirection rv cfg t u s)) = None"
      and unrealized: "\<not> nativeViewProtected (view (snd (checkDirection rv cfg t u s)))"
  shows "tick rv cfg t (Some u) s
           = applyAnimAtTime rv cfg
               (if direction (snd (checkDirection rv cfg t u s)) = In then 1 else 0)
               ((snd (checkDirection rv cfg t u s))\<lparr>last_t := t\<rparr>)
     \<and> fst (tick rv cfg t (Some u) s) = Normal
     \<and> animation (snd (tick rv cfg t (Some u) s)) = None
     \<and> length (animations (snd (tick rv cfg t (Some u) s))) = length (animations s)"
proof -
  have n: "fst (checkDirection rv cfg t u s) = Normal"
    by (rule checkDirection_Normal [OF ok])
  have eq: "tick rv cfg t (Some u) s
           = applyAnimAtTime rv cfg
               (if direction (snd (checkDirection rv cfg t u s)) = In then 1 else 0)
               ((snd (checkDirection rv cfg t u s))\<lparr>last_t := t\<rparr>)"
    using n none unrealized
    by (cases "checkDirection rv cfg t u s") (simp add: tick_def tickBody_def startAnimation_def)
  show ?thesis
    using none by (simp add: eq ok)
qed

theorem unrealized_snaps_witness:
  "animation (snd (checkDirection Plain demo_fly 1 0 (initial unrealized_view))) = None
   \<and> \<not> nativeViewProtected (view (snd (checkDirection Plain demo_fly 1 0 (initial unrealized_view))))
   \<and> direction (snd (checkDirection Plain demo_fly 1 0 (initial unrealized_view))) = Out
   \<and> fst (tick Plain demo_fly 1 (Some 0) (initial unrealized_view)) = Normal
   \<and> animation (snd (tick Plain demo_fly 1 (Some 0) (initial unrealized_view))) = None
   \<and> length (animations (snd (tick Plain demo_fly 1 (Some 0) (initial unrealized_view)))) = 0
   \<and> translateX (view (snd (tick Plain demo_fly 1 (Some 0) (initial unrealized_view)))) = 100"
  using unrealized_snaps [where rv = Plain and cfg = demo_fly and s = "initial unrealized_view"
      and t = 1 and u = 0, OF applyAnimAtTime_Plain]
  by (simp add: tick_defs adapter_defs)

end
